theory Spec2Isabelle
  imports Complex_Main "HOL-Library.Multiset"
begin

section \<open>Disease outbreak detection: the front-end computations\<close>

text \<open>
  The development embeds the pure computations of the dashboard: the monotone-chain
  convex hull of \<^verbatim>\<open>utils/convexHull.ts\<close>, the risk label of \<^verbatim>\<open>RiskSidebar\<close>, the
  capacity stress level of \<^verbatim>\<open>ClusterMap\<close>, the request and the chart formatting of
  \<^verbatim>\<open>SimulatorPanel.runSimulation\<close>, and \<^verbatim>\<open>SymptomChecker.calculateRisk\<close>.
  JavaScript numbers are modelled as real numbers: the coordinates, percentages and
  counts are read as the exact values they denote, so rounding, NaN and the
  infinities are outside the model. The one place where a result depends on how an
  arithmetic expression rounds is the cross product of the convex hull on collinear
  points; for it, a second copy of the loops takes the computed value of the cross
  product as a parameter.
\<close>

subsection \<open>Convex hull (utils/convexHull.ts)\<close>

record Point =
  latitude :: real
  longitude :: real

text \<open>The output element \<^verbatim>\<open>[p.latitude, p.longitude]\<close>.\<close>

definition toTuple :: "Point \<Rightarrow> real \<times> real" where
  "toTuple p = (latitude p, longitude p)"

text \<open>
  The comparator handed to \<^verbatim>\<open>Array.prototype.sort\<close>: by longitude, then by latitude.
  A negative result puts \<open>a\<close> before \<open>b\<close>.
\<close>

definition compare_points :: "Point \<Rightarrow> Point \<Rightarrow> real" where
  "compare_points a b =
     (if longitude a = longitude b then latitude a - latitude b
      else longitude a - longitude b)"

text \<open>
  \<^verbatim>\<open>[...points].sort(cmp)\<close> is a stable sort of a copy of the array; it is modelled as
  the stable insertion sort for the comparator.
\<close>

fun insert_by :: "('a \<Rightarrow> 'a \<Rightarrow> real) \<Rightarrow> 'a \<Rightarrow> 'a list \<Rightarrow> 'a list" where
  "insert_by cmp x [] = [x]"
| "insert_by cmp x (y # ys) =
     (if cmp x y \<le> 0 then x # y # ys else y # insert_by cmp x ys)"

definition sort_by :: "('a \<Rightarrow> 'a \<Rightarrow> real) \<Rightarrow> 'a list \<Rightarrow> 'a list" where
  "sort_by cmp xs = foldr (insert_by cmp) xs []"

definition sorted_points :: "Point list \<Rightarrow> Point list" where
  "sorted_points points = sort_by compare_points points"

definition cross :: "Point \<Rightarrow> Point \<Rightarrow> Point \<Rightarrow> real" where
  "cross o' a b =
     (longitude a - longitude o') * (latitude b - latitude o')
       - (latitude a - latitude o') * (longitude b - longitude o')"

text \<open>
  The inner \<^verbatim>\<open>while\<close> loop: the array \<open>chain\<close> (\<^verbatim>\<open>lower\<close> or \<^verbatim>\<open>upper\<close>) is a stack whose top is its last
  element; it is popped while it holds two points and the turn to \<open>p\<close> is not
  counter-clockwise.
\<close>

function pop_while :: "Point list \<Rightarrow> Point \<Rightarrow> Point list" where
  "pop_while chain p =
     (if 2 \<le> length chain \<and>
         cross (chain ! (length chain - 2)) (chain ! (length chain - 1)) p \<le> 0
      then pop_while (butlast chain) p
      else chain)"
  by pat_completeness auto
termination
  by (relation "measure (\<lambda>(chain, p). length chain)") auto

declare pop_while.simps [simp del]

text \<open>One iteration of a \<^verbatim>\<open>for\<close> loop: pop, then push \<open>p\<close>.\<close>

definition chain_step :: "Point list \<Rightarrow> Point \<Rightarrow> Point list" where
  "chain_step chain p = pop_while chain p @ [p]"

text \<open>A whole \<^verbatim>\<open>for\<close> loop over the points in the given order, from the empty array.\<close>

definition build_chain :: "Point list \<Rightarrow> Point list" where
  "build_chain ps = foldl chain_step [] ps"

text \<open>
  \<^verbatim>\<open>getConvexHull\<close>. The upper hull visits \<^verbatim>\<open>sorted\<close> from its last index down to 0.
  \<^verbatim>\<open>pop()\<close> on an empty array is a no-op in JavaScript, as \<open>butlast []\<close> is here.
\<close>

definition getConvexHull :: "Point list \<Rightarrow> (real \<times> real) list" where
  "getConvexHull points =
     (if length points < 3 then map toTuple points
      else
        let sorted = sorted_points points;
            lower = build_chain sorted;
            upper = build_chain (rev sorted);
            hullStub = butlast lower @ butlast upper
        in map toTuple hullStub)"

text \<open>The order the comparator sorts by: \<open>a\<close> may stand before \<open>b\<close>.\<close>

definition before :: "Point \<Rightarrow> Point \<Rightarrow> bool" where
  "before a b = (compare_points a b \<le> 0)"

text \<open>Three or more points on one line: every turn among them is flat.\<close>

definition collinear_points :: "Point list \<Rightarrow> bool" where
  "collinear_points ps =
     list_all (\<lambda>a. list_all (\<lambda>b. list_all (\<lambda>c. cross a b c = 0) ps) ps) ps"

subsection \<open>Convex hull with the cross product as computed\<close>

text \<open>
  The source evaluates \<^verbatim>\<open>cross\<close> in binary64 arithmetic: each subtraction and
  product rounds, and a product can overflow. What \<^verbatim>\<open>cross(o, a, b)\<close> evaluates to
  is therefore a JavaScript number that need not be the exact value of the formula:
  a finite value, an infinity or NaN.
\<close>

datatype js_number = Num real | PosInfinity | NegInfinity | NaN

text \<open>The test \<^verbatim>\<open>x <= 0\<close> on a JavaScript number; it is false for NaN.\<close>

fun le_zero :: "js_number \<Rightarrow> bool" where
  "le_zero (Num x) = (x \<le> 0)"
| "le_zero PosInfinity = False"
| "le_zero NegInfinity = True"
| "le_zero NaN = False"

text \<open>
  The loops of \<^verbatim>\<open>getConvexHull\<close> once more, line by line as above, with the value
  that \<^verbatim>\<open>cross\<close> computes as the parameter \<open>crossf\<close>. Nothing is assumed of it, so
  what holds for every \<open>crossf\<close> holds for the binary64 evaluation.
\<close>

function pop_while_computed ::
  "(Point \<Rightarrow> Point \<Rightarrow> Point \<Rightarrow> js_number) \<Rightarrow> Point list \<Rightarrow> Point \<Rightarrow> Point list" where
  "pop_while_computed crossf chain p =
     (if 2 \<le> length chain \<and>
         le_zero (crossf (chain ! (length chain - 2)) (chain ! (length chain - 1)) p)
      then pop_while_computed crossf (butlast chain) p
      else chain)"
  by pat_completeness auto
termination
  by (relation "measure (\<lambda>(crossf, chain, p). length chain)") auto

declare pop_while_computed.simps [simp del]

definition chain_step_computed ::
  "(Point \<Rightarrow> Point \<Rightarrow> Point \<Rightarrow> js_number) \<Rightarrow> Point list \<Rightarrow> Point \<Rightarrow> Point list" where
  "chain_step_computed crossf chain p = pop_while_computed crossf chain p @ [p]"

definition build_chain_computed ::
  "(Point \<Rightarrow> Point \<Rightarrow> Point \<Rightarrow> js_number) \<Rightarrow> Point list \<Rightarrow> Point list" where
  "build_chain_computed crossf ps = foldl (chain_step_computed crossf) [] ps"

definition getConvexHull_computed ::
  "(Point \<Rightarrow> Point \<Rightarrow> Point \<Rightarrow> js_number) \<Rightarrow> Point list \<Rightarrow> (real \<times> real) list" where
  "getConvexHull_computed crossf points =
     (if length points < 3 then map toTuple points
      else
        let sorted = sorted_points points;
            lower = build_chain_computed crossf sorted;
            upper = build_chain_computed crossf (rev sorted);
            hullStub = butlast lower @ butlast upper
        in map toTuple hullStub)"

text \<open>The computed value when no operation rounds: the exact value of the formula.\<close>

definition exact_cross :: "Point \<Rightarrow> Point \<Rightarrow> Point \<Rightarrow> js_number" where
  "exact_cross o' a b = Num (cross o' a b)"

text \<open>
  The points are collinear as the program sees them: every cross product it computes
  among them is 0 (the two zeros of binary64 are both \<open>Num 0\<close>).
\<close>

definition computed_collinear ::
  "(Point \<Rightarrow> Point \<Rightarrow> Point \<Rightarrow> js_number) \<Rightarrow> Point list \<Rightarrow> bool" where
  "computed_collinear crossf ps =
     list_all (\<lambda>a. list_all (\<lambda>b. list_all (\<lambda>c. crossf a b c = Num 0) ps) ps) ps"

subsection \<open>Risk label of a cluster (RiskSidebar)\<close>

record Member =
  member_name :: string
  member_latitude :: real
  member_longitude :: real

record Cluster =
  cluster_id :: int
  members :: "Member list"

definition riskLevel :: "Cluster \<Rightarrow> string" where
  "riskLevel cluster = (if length (members cluster) > 3 then ''High'' else ''Moderate'')"

subsection \<open>Capacity stress of a hospital marker (ClusterMap)\<close>

record Usage =
  icu_utilization :: real

record Hospital =
  hospital_id :: int
  usage :: "Usage option"

record Feature =
  feature_hospital_id :: int
  clusterColor :: string

record MergedFeature =
  merged_hospital_id :: int
  markerColor :: string
  stressLevel :: string

text \<open>
  The body of the \<^verbatim>\<open>mergedFeatures\<close> callback after the lookup: \<open>fullData\<close> is the
  roster entry found for the feature, if any; the usage is read only when both the
  entry and its \<^verbatim>\<open>usage\<close> are present.
\<close>

definition merge_feature :: "Feature \<Rightarrow> Hospital option \<Rightarrow> MergedFeature" where
  "merge_feature f fullData =
     (case (case fullData of None \<Rightarrow> None | Some h \<Rightarrow> usage h) of
        None \<Rightarrow>
          \<lparr>merged_hospital_id = feature_hospital_id f,
           markerColor = clusterColor f, stressLevel = ''Normal''\<rparr>
      | Some u \<Rightarrow>
          (let icuUtil = icu_utilization u in
           if icuUtil > 80 then
             \<lparr>merged_hospital_id = feature_hospital_id f,
              markerColor = ''red'', stressLevel = ''CRITICAL''\<rparr>
           else if icuUtil > 50 then
             \<lparr>merged_hospital_id = feature_hospital_id f,
              markerColor = ''orange'', stressLevel = ''Warning''\<rparr>
           else
             \<lparr>merged_hospital_id = feature_hospital_id f,
              markerColor = ''green'', stressLevel = ''Normal''\<rparr>))"

definition mergedFeatures :: "Hospital list \<Rightarrow> Feature list \<Rightarrow> MergedFeature list" where
  "mergedFeatures hospitals featuresToRender =
     map (\<lambda>f. merge_feature f
            (find (\<lambda>h. hospital_id h = feature_hospital_id f) hospitals))
         featuresToRender"

subsection \<open>Simulation request and chart rows (SimulatorPanel)\<close>

text \<open>The two slider states, set by \<^verbatim>\<open>parseInt\<close> of a range input.\<close>

record SimulatorState =
  maskCompliance :: int
  lockdownLevel :: int

record SimulationRequest =
  mask_compliance :: real
  lockdown_level :: real

definition request_body :: "SimulatorState \<Rightarrow> SimulationRequest" where
  "request_body st =
     \<lparr>mask_compliance = real_of_int (maskCompliance st) / 100,
      lockdown_level = real_of_int (lockdownLevel st) / 100\<rparr>"

text \<open>The range inputs have \<^verbatim>\<open>min="0" max="100"\<close>.\<close>

definition slider_range :: "SimulatorState \<Rightarrow> bool" where
  "slider_range st =
     (0 \<le> maskCompliance st \<and> maskCompliance st \<le> 100 \<and>
      0 \<le> lockdownLevel st \<and> lockdownLevel st \<le> 100)"

text \<open>
  One point of a simulation curve as the response carries it; the chart reads \<^verbatim>\<open>day\<close>
  and \<^verbatim>\<open>infected\<close>.
\<close>

record SimulationPoint =
  day :: nat
  susceptible :: real
  infected :: real
  recovered :: real

record SimulationResult =
  baseline :: "SimulationPoint list"
  projected :: "SimulationPoint list"

record ChartRow =
  row_day :: string
  row_baseline :: real
  row_projected :: real

text \<open>
  Reading \<^verbatim>\<open>.infected\<close> of \<^verbatim>\<open>result.projected[i]\<close> when \<open>i\<close> is past the end of the
  array reads a property of \<^verbatim>\<open>undefined\<close>, which throws a TypeError.
\<close>

datatype js_error = TypeError

fun decimal :: "nat \<Rightarrow> string" where
  "decimal n =
     (if n < 10 then [''0123456789'' ! n]
      else decimal (n div 10) @ [''0123456789'' ! (n mod 10)])"

declare decimal.simps [simp del]

text \<open>The callback of \<^verbatim>\<open>result.baseline.map((b, i) => ...)\<close>.\<close>

definition format_row :: "SimulationResult \<Rightarrow> SimulationPoint \<Rightarrow> nat \<Rightarrow> js_error + ChartRow" where
  "format_row result b i =
     (if i < length (projected result)
      then Inr \<lparr>row_day = ''Day '' @ decimal (day b),
                row_baseline = infected b,
                row_projected = infected (projected result ! i)\<rparr>
      else Inl TypeError)"

text \<open>The \<^verbatim>\<open>map\<close> itself, from index \<open>i\<close> on; the first throw ends it.\<close>

fun format_from :: "SimulationResult \<Rightarrow> nat \<Rightarrow> SimulationPoint list \<Rightarrow> js_error + ChartRow list" where
  "format_from result i [] = Inr []"
| "format_from result i (b # bs) =
     (case format_row result b i of
        Inl e \<Rightarrow> Inl e
      | Inr row \<Rightarrow>
          (case format_from result (Suc i) bs of
             Inl e \<Rightarrow> Inl e
           | Inr rows \<Rightarrow> Inr (row # rows)))"

definition formatted :: "SimulationResult \<Rightarrow> js_error + ChartRow list" where
  "formatted result = format_from result 0 (baseline result)"

subsection \<open>Intervention simulator (specification, section 4.4)\<close>

text \<open>
  The transmission rate \<open>beta0\<close>, the recovery rate \<open>gamma\<close>, the population and the
  initial infected count are configuration constants of the simulator.
\<close>

record SimConfig =
  beta0 :: real
  gamma :: real
  population :: real
  initial_infected :: real

text \<open>
  Modelled from the spec: the effective transmission rate of the intervention
  simulator, whose code (the service behind \<^verbatim>\<open>/api/simulation/predict\<close>) is not among
  the sources: \<^verbatim>\<open>beta_eff = beta_0 * (1 - 0.5 * mask_compliance) * (1 - 0.8 * lockdown_level)\<close>.
\<close>

definition beta_eff :: "real \<Rightarrow> real \<Rightarrow> real \<Rightarrow> real" where
  "beta_eff b0 m l = b0 * (1 - 0.5 * m) * (1 - 0.8 * l)"

text \<open>
  Modelled from the spec: one unit time step of the missing simulator,
  \<^verbatim>\<open>S' = S - beta*S*I/N\<close>, \<^verbatim>\<open>I' = I + beta*S*I/N - gamma*I\<close>, \<^verbatim>\<open>R' = R + gamma*I\<close>.
\<close>

definition sir_step :: "real \<Rightarrow> real \<Rightarrow> real \<Rightarrow> SimulationPoint \<Rightarrow> SimulationPoint" where
  "sir_step b g N p =
     \<lparr>day = day p + 1,
      susceptible = susceptible p - b * susceptible p * infected p / N,
      infected = infected p + b * susceptible p * infected p / N - g * infected p,
      recovered = recovered p + g * infected p\<rparr>"

text \<open>
  Modelled from the spec: a curve of the missing simulator, the ordered sequence of
  \<open>n\<close> daily states from the state \<open>p\<close> on.
\<close>

fun sir_curve :: "real \<Rightarrow> real \<Rightarrow> real \<Rightarrow> nat \<Rightarrow> SimulationPoint \<Rightarrow> SimulationPoint list" where
  "sir_curve b g N 0 p = []"
| "sir_curve b g N (Suc n) p = p # sir_curve b g N n (sir_step b g N p)"

text \<open>
  Modelled from the spec: the initial state that both curves of the missing
  simulator share: the initial infected count, nobody recovered, everybody else
  susceptible.
\<close>

definition initial_state :: "SimConfig \<Rightarrow> SimulationPoint" where
  "initial_state cfg =
     \<lparr>day = 0,
      susceptible = population cfg - initial_infected cfg,
      infected = initial_infected cfg,
      recovered = 0\<rparr>"

text \<open>
  Modelled from the spec: \<^verbatim>\<open>simulate(mask_compliance, lockdown_level, horizon_days)\<close>
  of the missing simulator: the baseline runs with both parameters 0, the projected
  curve with the given ones, from the same initial state and for the same number of
  days.
\<close>

definition simulate :: "SimConfig \<Rightarrow> real \<Rightarrow> real \<Rightarrow> nat \<Rightarrow> SimulationResult" where
  "simulate cfg m l horizon_days =
     \<lparr>baseline = sir_curve (beta_eff (beta0 cfg) 0 0) (gamma cfg) (population cfg)
                   horizon_days (initial_state cfg),
      projected = sir_curve (beta_eff (beta0 cfg) m l) (gamma cfg) (population cfg)
                    horizon_days (initial_state cfg)\<rparr>"

text \<open>The rates are per unit time step and the initial infected are part of the population.\<close>

definition config_ok :: "SimConfig \<Rightarrow> bool" where
  "config_ok cfg =
     (0 \<le> beta0 cfg \<and> beta0 cfg \<le> 1 \<and> 0 \<le> gamma cfg \<and> gamma cfg \<le> 1 \<and>
      0 < population cfg \<and>
      0 \<le> initial_infected cfg \<and> initial_infected cfg \<le> population cfg)"

text \<open>The property a curve point has to satisfy for the population \<open>N\<close>.\<close>

definition compartments_ok :: "real \<Rightarrow> SimulationPoint \<Rightarrow> bool" where
  "compartments_ok N p =
     (0 \<le> susceptible p \<and> susceptible p \<le> N \<and>
      0 \<le> infected p \<and> infected p \<le> N \<and>
      0 \<le> recovered p \<and> recovered p \<le> N \<and>
      susceptible p + infected p + recovered p = N)"

subsection \<open>Symptom checker (SymptomChecker.calculateRisk)\<close>

record Answers =
  fever :: bool
  cough :: bool
  breathing :: bool
  sore_throat :: bool
  body_aches :: bool
  contact :: bool

definition calculateRisk :: "Answers \<Rightarrow> string" where
  "calculateRisk answers =
     (if (fever answers \<and> breathing answers) \<or> (contact answers \<and> fever answers)
        then ''High''
      else if fever answers \<and> (cough answers \<or> sore_throat answers \<or> body_aches answers)
        then ''Moderate''
      else if fever answers \<or> cough answers \<or> contact answers \<or> sore_throat answers
        then ''Low''
      else ''None'')"

section \<open>Properties\<close>

subsection \<open>Symptom checker\<close>

text \<open>
  Claim C10. \<open>calculateRisk\<close> always returns one of "High", "Moderate", "Low",
  "None"; and when difficulty breathing is the only answer ticked it returns "None".
\<close>

theorem calculateRisk_range_and_breathing_alone:
  "calculateRisk answers \<in> {''High'', ''Moderate'', ''Low'', ''None''} \<and>
   calculateRisk \<lparr>fever = False, cough = False, breathing = True, sore_throat = False,
                   body_aches = False, contact = False\<rparr> = ''None''"
  by (simp add: calculateRisk_def)

subsection \<open>Risk label\<close>

text \<open>
  Claim C1, as amended. A cluster with more than 3 members is labelled "High", any
  other "Moderate"; a cluster of exactly 3 members is labelled "Moderate".
\<close>

theorem riskLevel_threshold:
  "riskLevel cluster = (if 3 < length (members cluster) then ''High'' else ''Moderate'') \<and>
   (length (members cluster) = 3 \<longrightarrow> riskLevel cluster = ''Moderate'')"
  by (simp add: riskLevel_def)

text \<open>The amended rule at a cluster of three members.\<close>

theorem riskLevel_threshold_witness:
  "length (members \<lparr>cluster_id = 1, members =
      [\<lparr>member_name = ''A'', member_latitude = 45, member_longitude = -79\<rparr>,
       \<lparr>member_name = ''B'', member_latitude = 45, member_longitude = -79\<rparr>,
       \<lparr>member_name = ''C'', member_latitude = 45, member_longitude = -79\<rparr>]\<rparr>) = 3 \<and>
   riskLevel \<lparr>cluster_id = 1, members =
      [\<lparr>member_name = ''A'', member_latitude = 45, member_longitude = -79\<rparr>,
       \<lparr>member_name = ''B'', member_latitude = 45, member_longitude = -79\<rparr>,
       \<lparr>member_name = ''C'', member_latitude = 45, member_longitude = -79\<rparr>]\<rparr> = ''Moderate''"
  using riskLevel_threshold [of "\<lparr>cluster_id = 1, members =
      [\<lparr>member_name = ''A'', member_latitude = 45, member_longitude = -79\<rparr>,
       \<lparr>member_name = ''B'', member_latitude = 45, member_longitude = -79\<rparr>,
       \<lparr>member_name = ''C'', member_latitude = 45, member_longitude = -79\<rparr>]\<rparr>"]
  by simp

text \<open>Claim C1 as stated fails: the cluster of exactly three members is not "High".\<close>

theorem riskLevel_three_counterexample:
  "riskLevel \<lparr>cluster_id = 1, members =
      [\<lparr>member_name = ''A'', member_latitude = 45, member_longitude = -79\<rparr>,
       \<lparr>member_name = ''B'', member_latitude = 45, member_longitude = -79\<rparr>,
       \<lparr>member_name = ''C'', member_latitude = 45, member_longitude = -79\<rparr>]\<rparr> \<noteq> ''High''"
  by (simp add: riskLevel_def)

subsection \<open>Capacity stress\<close>

text \<open>
  Claim C3, as amended. For a feature whose roster entry carries usage data, an ICU
  utilization above 80 gives the stress level "CRITICAL", and one above 50 and at
  most 80 gives the stress level "Warning".
\<close>

theorem stressLevel_thresholds:
  assumes "fullData = Some h" and "usage h = Some u"
  shows "(80 < icu_utilization u \<longrightarrow> stressLevel (merge_feature f fullData) = ''CRITICAL'') \<and>
         (50 < icu_utilization u \<and> icu_utilization u \<le> 80 \<longrightarrow>
            stressLevel (merge_feature f fullData) = ''Warning'')"
  using assms by (simp add: merge_feature_def Let_def)

text \<open>The two rules at 81 and at 80 percent.\<close>

theorem stressLevel_thresholds_witness:
  "stressLevel (merge_feature \<lparr>feature_hospital_id = 7, clusterColor = ''blue''\<rparr>
      (Some \<lparr>hospital_id = 7, usage = Some \<lparr>icu_utilization = 81\<rparr>\<rparr>)) = ''CRITICAL'' \<and>
   stressLevel (merge_feature \<lparr>feature_hospital_id = 7, clusterColor = ''blue''\<rparr>
      (Some \<lparr>hospital_id = 7, usage = Some \<lparr>icu_utilization = 80\<rparr>\<rparr>)) = ''Warning''"
  using
    stressLevel_thresholds [of "Some \<lparr>hospital_id = 7, usage = Some \<lparr>icu_utilization = 81\<rparr>\<rparr>"
      "\<lparr>hospital_id = 7, usage = Some \<lparr>icu_utilization = 81\<rparr>\<rparr>" "\<lparr>icu_utilization = 81\<rparr>"
      "\<lparr>feature_hospital_id = 7, clusterColor = ''blue''\<rparr>"]
    stressLevel_thresholds [of "Some \<lparr>hospital_id = 7, usage = Some \<lparr>icu_utilization = 80\<rparr>\<rparr>"
      "\<lparr>hospital_id = 7, usage = Some \<lparr>icu_utilization = 80\<rparr>\<rparr>" "\<lparr>icu_utilization = 80\<rparr>"
      "\<lparr>feature_hospital_id = 7, clusterColor = ''blue''\<rparr>"]
  by simp

text \<open>
  Claim C3 as stated fails at the lower end of the interval: at exactly 50 percent the
  marker is green and the stress level is "Normal".
\<close>

theorem stressLevel_fifty_counterexample:
  "mergedFeatures [\<lparr>hospital_id = 7, usage = Some \<lparr>icu_utilization = 50\<rparr>\<rparr>]
      [\<lparr>feature_hospital_id = 7, clusterColor = ''blue''\<rparr>]
     = [\<lparr>merged_hospital_id = 7, markerColor = ''green'', stressLevel = ''Normal''\<rparr>]"
  by (simp add: mergedFeatures_def merge_feature_def)

subsection \<open>Simulation request\<close>

text \<open>
  Claim C7. For slider settings between 0 and 100, the \<open>mask_compliance\<close> and
  \<open>lockdown_level\<close> of the request lie in the closed interval from 0 to 1.
\<close>

theorem request_body_unit_interval:
  assumes "slider_range st"
  shows "0 \<le> mask_compliance (request_body st) \<and> mask_compliance (request_body st) \<le> 1 \<and>
         0 \<le> lockdown_level (request_body st) \<and> lockdown_level (request_body st) \<le> 1"
  using assms by (simp add: slider_range_def request_body_def)

theorem request_body_unit_interval_witness:
  "slider_range \<lparr>maskCompliance = 100, lockdownLevel = 35\<rparr> \<and>
   0 \<le> mask_compliance (request_body \<lparr>maskCompliance = 100, lockdownLevel = 35\<rparr>) \<and>
   mask_compliance (request_body \<lparr>maskCompliance = 100, lockdownLevel = 35\<rparr>) \<le> 1 \<and>
   0 \<le> lockdown_level (request_body \<lparr>maskCompliance = 100, lockdownLevel = 35\<rparr>) \<and>
   lockdown_level (request_body \<lparr>maskCompliance = 100, lockdownLevel = 35\<rparr>) \<le> 1"
proof -
  have h: "slider_range \<lparr>maskCompliance = 100, lockdownLevel = 35\<rparr>"
    by (simp add: slider_range_def)
  show ?thesis
    using h request_body_unit_interval [OF h] by simp
qed

subsection \<open>Convex hull: fewer than three points\<close>

text \<open>
  Claim C5. For fewer than 3 points \<open>getConvexHull\<close> returns exactly the input
  points, in their order, each as its (latitude, longitude) pair.
\<close>

theorem getConvexHull_small:
  assumes "length points < 3"
  shows "getConvexHull points = map (\<lambda>p. (latitude p, longitude p)) points"
  using assms by (simp add: getConvexHull_def toTuple_def)

theorem getConvexHull_small_witness:
  "length [\<lparr>latitude = 45, longitude = -79\<rparr>, \<lparr>latitude = 43, longitude = -80\<rparr>] < 3 \<and>
   getConvexHull [\<lparr>latitude = 45, longitude = -79\<rparr>, \<lparr>latitude = 43, longitude = -80\<rparr>]
     = [(45, -79), (43, -80)]"
  using getConvexHull_small [of "[\<lparr>latitude = 45, longitude = -79\<rparr>, \<lparr>latitude = 43, longitude = -80\<rparr>]"]
  by simp

subsection \<open>Chart rows\<close>

lemma format_from_in_range:
  "i + length bs \<le> length (projected result) \<Longrightarrow>
   \<exists>rows. format_from result i bs = Inr rows \<and> length rows = length bs"
proof (induction bs arbitrary: i)
  case Nil
  then show ?case by simp
next
  case (Cons b bs)
  from Cons.prems have "Suc i + length bs \<le> length (projected result)" by simp
  from Cons.IH [OF this] obtain rows where
    "format_from result (Suc i) bs = Inr rows" "length rows = length bs" by blast
  moreover from Cons.prems have "i < length (projected result)" by simp
  ultimately show ?case by (simp add: format_row_def)
qed

lemma format_from_out_of_range:
  "i \<le> length (projected result) \<Longrightarrow> length (projected result) < i + length bs \<Longrightarrow>
   format_from result i bs = Inl TypeError"
proof (induction bs arbitrary: i)
  case Nil
  then show ?case by simp
next
  case (Cons b bs)
  show ?case
  proof (cases "i < length (projected result)")
    case True
    then have "Suc i \<le> length (projected result)" by simp
    moreover from Cons.prems have "length (projected result) < Suc i + length bs" by simp
    ultimately have "format_from result (Suc i) bs = Inl TypeError" by (rule Cons.IH)
    with True show ?thesis by (simp add: format_row_def)
  next
    case False
    then show ?thesis by (simp add: format_row_def)
  qed
qed

text \<open>
  Claim C6. When the baseline and the projected curve of a response have the same
  length, the formatting reads \<open>projected\<close> only inside its range and yields one
  row per baseline point; when the projected curve is shorter than the baseline, the
  formatting reaches an index past its end and throws.
\<close>

theorem formatted_index_safety:
  "(length (baseline result) = length (projected result) \<longrightarrow>
      (\<exists>rows. formatted result = Inr rows \<and> length rows = length (baseline result))) \<and>
   (length (projected result) < length (baseline result) \<longrightarrow>
      formatted result = Inl TypeError)"
proof (intro conjI impI)
  assume "length (baseline result) = length (projected result)"
  then have "0 + length (baseline result) \<le> length (projected result)" by simp
  from format_from_in_range [OF this]
  show "\<exists>rows. formatted result = Inr rows \<and> length rows = length (baseline result)"
    by (simp add: formatted_def)
next
  assume "length (projected result) < length (baseline result)"
  then have "length (projected result) < 0 + length (baseline result)" by simp
  with format_from_out_of_range [of 0 result "baseline result"]
  show "formatted result = Inl TypeError"
    by (simp add: formatted_def)
qed

text \<open>Two days against two days, and two days against one.\<close>

theorem formatted_index_safety_witness:
  "length (baseline \<lparr>baseline = [\<lparr>day = 1, susceptible = 990, infected = 10, recovered = 0\<rparr>,
                                 \<lparr>day = 2, susceptible = 987, infected = 12, recovered = 1\<rparr>],
                     projected = [\<lparr>day = 1, susceptible = 990, infected = 10, recovered = 0\<rparr>,
                                  \<lparr>day = 2, susceptible = 988, infected = 11, recovered = 1\<rparr>]\<rparr>)
     = length (projected \<lparr>baseline = [\<lparr>day = 1, susceptible = 990, infected = 10, recovered = 0\<rparr>,
                                 \<lparr>day = 2, susceptible = 987, infected = 12, recovered = 1\<rparr>],
                     projected = [\<lparr>day = 1, susceptible = 990, infected = 10, recovered = 0\<rparr>,
                                  \<lparr>day = 2, susceptible = 988, infected = 11, recovered = 1\<rparr>]\<rparr>) \<and>
   (\<exists>rows. formatted \<lparr>baseline = [\<lparr>day = 1, susceptible = 990, infected = 10, recovered = 0\<rparr>,
                                 \<lparr>day = 2, susceptible = 987, infected = 12, recovered = 1\<rparr>],
                     projected = [\<lparr>day = 1, susceptible = 990, infected = 10, recovered = 0\<rparr>,
                                  \<lparr>day = 2, susceptible = 988, infected = 11, recovered = 1\<rparr>]\<rparr>
        = Inr rows \<and> length rows = 2) \<and>
   length (projected \<lparr>baseline = [\<lparr>day = 1, susceptible = 990, infected = 10, recovered = 0\<rparr>,
                                  \<lparr>day = 2, susceptible = 987, infected = 12, recovered = 1\<rparr>],
                      projected = [\<lparr>day = 1, susceptible = 990, infected = 10, recovered = 0\<rparr>]\<rparr>)
     < length (baseline \<lparr>baseline = [\<lparr>day = 1, susceptible = 990, infected = 10, recovered = 0\<rparr>,
                                  \<lparr>day = 2, susceptible = 987, infected = 12, recovered = 1\<rparr>],
                      projected = [\<lparr>day = 1, susceptible = 990, infected = 10, recovered = 0\<rparr>]\<rparr>) \<and>
   formatted \<lparr>baseline = [\<lparr>day = 1, susceptible = 990, infected = 10, recovered = 0\<rparr>,
                          \<lparr>day = 2, susceptible = 987, infected = 12, recovered = 1\<rparr>],
              projected = [\<lparr>day = 1, susceptible = 990, infected = 10, recovered = 0\<rparr>]\<rparr>
     = Inl TypeError"
  using
    formatted_index_safety [of "\<lparr>baseline = [\<lparr>day = 1, susceptible = 990, infected = 10, recovered = 0\<rparr>,
                                 \<lparr>day = 2, susceptible = 987, infected = 12, recovered = 1\<rparr>],
                     projected = [\<lparr>day = 1, susceptible = 990, infected = 10, recovered = 0\<rparr>,
                                  \<lparr>day = 2, susceptible = 988, infected = 11, recovered = 1\<rparr>]\<rparr>"]
    formatted_index_safety [of "\<lparr>baseline = [\<lparr>day = 1, susceptible = 990, infected = 10, recovered = 0\<rparr>,
                          \<lparr>day = 2, susceptible = 987, infected = 12, recovered = 1\<rparr>],
              projected = [\<lparr>day = 1, susceptible = 990, infected = 10, recovered = 0\<rparr>]\<rparr>"]
  by (simp add: numeral_2_eq_2)

subsection \<open>Convex hull: the sort and the chains\<close>

lemma set_insert_by: "set (insert_by cmp x ys) = insert x (set ys)"
  by (induction ys) auto

lemma mset_insert_by: "mset (insert_by cmp x ys) = add_mset x (mset ys)"
  by (induction ys) auto

lemma mset_sort_by: "mset (sort_by cmp xs) = mset xs"
  by (induction xs) (simp_all add: sort_by_def mset_insert_by)

lemma set_sorted_points: "set (sorted_points ps) = set ps"
  using mset_sort_by [of compare_points ps] by (metis sorted_points_def set_mset_mset)

lemma length_sorted_points: "length (sorted_points ps) = length ps"
  using mset_sort_by [of compare_points ps] by (metis sorted_points_def size_mset)

lemma compare_points_le_iff:
  "compare_points a b \<le> 0 \<longleftrightarrow>
     longitude a < longitude b \<or> (longitude a = longitude b \<and> latitude a \<le> latitude b)"
  by (auto simp: compare_points_def)

lemma compare_points_total: "\<not> compare_points a b \<le> 0 \<Longrightarrow> compare_points b a \<le> 0"
  by (auto simp: compare_points_le_iff)

lemma compare_points_trans:
  "compare_points a b \<le> 0 \<Longrightarrow> compare_points b c \<le> 0 \<Longrightarrow> compare_points a c \<le> 0"
  by (auto simp: compare_points_le_iff)

lemma compare_points_antisym:
  fixes a b :: Point
  shows "compare_points a b \<le> 0 \<Longrightarrow> compare_points b a \<le> 0 \<Longrightarrow> a = b"
  by (auto simp: compare_points_le_iff)

lemma sorted_insert_by:
  "sorted_wrt before ys \<Longrightarrow> sorted_wrt before (insert_by compare_points x ys)"
proof (induction ys)
  case Nil
  then show ?case by simp
next
  case (Cons y ys)
  show ?case
  proof (cases "compare_points x y \<le> 0")
    case True
    with Cons.prems show ?thesis
      by (auto simp: before_def intro: compare_points_trans)
  next
    case False
    then have "before y x" by (simp add: before_def compare_points_total)
    with Cons False show ?thesis
      by (auto simp: set_insert_by)
  qed
qed

lemma sorted_sorted_points: "sorted_wrt before (sorted_points ps)"
  by (induction ps) (simp_all add: sorted_points_def sort_by_def sorted_insert_by)

lemma sorted_before_unique:
  "sorted_wrt before xs \<Longrightarrow> sorted_wrt before ys \<Longrightarrow> mset xs = mset ys \<Longrightarrow> xs = ys"
proof (induction xs arbitrary: ys)
  case Nil
  then show ?case by simp
next
  case (Cons x xs)
  from Cons.prems(3) obtain y ys' where ys: "ys = y # ys'"
    by (cases ys) auto
  have "x \<in> set ys" using Cons.prems(3) by (metis list.set_intros(1) set_mset_mset)
  with Cons.prems(2) ys have yx: "x = y \<or> before y x" by auto
  have "y \<in> set (x # xs)" using Cons.prems(3) ys by (metis list.set_intros(1) set_mset_mset)
  with Cons.prems(1) have xy: "x = y \<or> before x y" by auto
  from xy yx have eq: "x = y"
    by (auto simp: before_def dest: compare_points_antisym)
  with Cons.prems ys have "xs = ys'"
    by (intro Cons.IH) auto
  with eq ys show ?case by simp
qed

lemma sorted_points_perm:
  "mset ps = mset qs \<Longrightarrow> sorted_points ps = sorted_points qs"
proof -
  assume "mset ps = mset qs"
  then have "mset (sorted_points ps) = mset (sorted_points qs)"
    by (simp add: sorted_points_def mset_sort_by)
  with sorted_sorted_points [of ps] sorted_sorted_points [of qs]
  show ?thesis by (rule sorted_before_unique)
qed

lemma before_refl: "before p p"
  by (simp add: before_def compare_points_def)

lemma sorted_before_ends:
  "sorted_wrt before xs \<Longrightarrow> p \<in> set xs \<Longrightarrow> before (hd xs) p \<and> before p (last xs)"
proof (induction xs)
  case Nil
  then show ?case by simp
next
  case (Cons x xs)
  show ?case
  proof (cases "xs = []")
    case True
    with Cons.prems show ?thesis by (simp add: before_refl)
  next
    case False
    from Cons.prems(1) False have xl: "before x (last xs)" by simp
    show ?thesis
    proof (cases "p = x")
      case True
      with xl False show ?thesis by (simp add: before_refl)
    next
      case False
      with Cons.prems have p: "p \<in> set xs" "before x p" by auto
      from Cons.prems(1) have "sorted_wrt before xs" by simp
      from Cons.IH [OF this p(1)] p(2) \<open>xs \<noteq> []\<close> show ?thesis by simp
    qed
  qed
qed

lemma pop_while_subset: "set (pop_while chain p) \<subseteq> set chain"
proof (induction chain p rule: pop_while.induct)
  case (1 chain p)
  show ?case
  proof (cases "2 \<le> length chain \<and>
         cross (chain ! (length chain - 2)) (chain ! (length chain - 1)) p \<le> 0")
    case True
    with 1 have "set (pop_while (butlast chain) p) \<subseteq> set (butlast chain)" by simp
    moreover have "set (butlast chain) \<subseteq> set chain" by (meson in_set_butlastD subsetI)
    moreover from True have "pop_while chain p = pop_while (butlast chain) p"
      by (subst pop_while.simps) simp
    ultimately show ?thesis by auto
  next
    case False
    then show ?thesis by (subst pop_while.simps) auto
  qed
qed

lemma pop_while_nonempty: "chain \<noteq> [] \<Longrightarrow> pop_while chain p \<noteq> []"
proof (induction chain p rule: pop_while.induct)
  case (1 chain p)
  show ?case
  proof (cases "2 \<le> length chain \<and>
         cross (chain ! (length chain - 2)) (chain ! (length chain - 1)) p \<le> 0")
    case True
    then have "butlast chain \<noteq> []" by (cases chain rule: rev_cases) auto
    with 1 True have "pop_while (butlast chain) p \<noteq> []" by simp
    moreover from True have "pop_while chain p = pop_while (butlast chain) p"
      by (subst pop_while.simps) simp
    ultimately show ?thesis by simp
  next
    case False
    with 1 show ?thesis by (subst pop_while.simps) auto
  qed
qed

lemma build_chain_snoc: "build_chain (ps @ [p]) = pop_while (build_chain ps) p @ [p]"
  by (simp add: build_chain_def chain_step_def)

lemma build_chain_subset: "set (build_chain ps) \<subseteq> set ps"
proof (induction ps rule: rev_induct)
  case Nil
  then show ?case by (simp add: build_chain_def)
next
  case (snoc p ps)
  with pop_while_subset [of "build_chain ps" p] show ?case
    by (auto simp: build_chain_snoc)
qed

lemma build_chain_nonempty: "ps \<noteq> [] \<Longrightarrow> build_chain ps \<noteq> []"
  by (cases ps rule: rev_cases) (simp_all add: build_chain_snoc)

lemma build_chain_two: "2 \<le> length ps \<Longrightarrow> 2 \<le> length (build_chain ps)"
proof (cases ps rule: rev_cases)
  case Nil
  assume "2 \<le> length ps"
  with Nil show ?thesis by simp
next
  case (snoc qs q)
  assume "2 \<le> length ps"
  with snoc have "qs \<noteq> []" by auto
  then have "pop_while (build_chain qs) q \<noteq> []"
    by (simp add: build_chain_nonempty pop_while_nonempty)
  then have "1 \<le> length (pop_while (build_chain qs) q)"
    by (cases "pop_while (build_chain qs) q") auto
  with snoc show ?thesis by (simp add: build_chain_snoc)
qed

lemma pop_while_computed_short:
  "length chain < 2 \<Longrightarrow> pop_while_computed crossf chain p = chain"
  by (subst pop_while_computed.simps) simp

lemma pop_while_computed_pair:
  "le_zero (crossf a b p) \<Longrightarrow> pop_while_computed crossf [a, b] p = [a]"
  by (subst pop_while_computed.simps) (simp add: pop_while_computed_short)

lemma build_chain_computed_snoc:
  "build_chain_computed crossf (ps @ [p]) =
     pop_while_computed crossf (build_chain_computed crossf ps) p @ [p]"
  by (simp add: build_chain_computed_def chain_step_computed_def)

lemma build_chain_computed_single: "build_chain_computed crossf [a] = [a]"
  by (simp add: build_chain_computed_def chain_step_computed_def pop_while_computed_short)

lemma computed_collinear_iff:
  "computed_collinear crossf ps \<longleftrightarrow>
     (\<forall>a \<in> set ps. \<forall>b \<in> set ps. \<forall>c \<in> set ps. crossf a b c = Num 0)"
  by (simp add: computed_collinear_def list_all_iff)

text \<open>When every computed turn is flat, a chain keeps its first point and the last one pushed.\<close>

lemma build_chain_computed_collinear:
  "computed_collinear crossf ps \<Longrightarrow> 2 \<le> length ps \<Longrightarrow>
   build_chain_computed crossf ps = [hd ps, last ps]"
proof (induction ps rule: rev_induct)
  case Nil
  then show ?case by simp
next
  case (snoc q qs)
  from snoc.prems(2) have ne: "qs \<noteq> []" by auto
  from snoc.prems(1) have col: "computed_collinear crossf qs"
    by (simp add: computed_collinear_iff)
  show ?case
  proof (cases "2 \<le> length qs")
    case True
    with snoc.IH col have "build_chain_computed crossf qs = [hd qs, last qs]" by simp
    moreover from snoc.prems(1) ne have "crossf (hd qs) (last qs) q = Num 0"
      by (simp add: computed_collinear_iff)
    then have "le_zero (crossf (hd qs) (last qs) q)" by simp
    ultimately show ?thesis using ne
      by (simp add: build_chain_computed_snoc pop_while_computed_pair)
  next
    case False
    with ne have "length qs = 1" by (cases qs) (auto simp: not_le)
    then obtain a where "qs = [a]"
      by (auto simp: length_Suc_conv)
    moreover have "build_chain_computed crossf ([a] @ [q]) =
        pop_while_computed crossf (build_chain_computed crossf [a]) q @ [q]"
      by (rule build_chain_computed_snoc)
    ultimately show ?thesis
      by (simp add: build_chain_computed_single pop_while_computed_short)
  qed
qed

text \<open>With the exact value as the computed one, the second copy of the loops is the first.\<close>

lemma pop_while_computed_exact: "pop_while_computed exact_cross chain p = pop_while chain p"
proof (induction chain p rule: pop_while.induct)
  case (1 chain p)
  show ?case
  proof (cases "2 \<le> length chain \<and>
         cross (chain ! (length chain - 2)) (chain ! (length chain - 1)) p \<le> 0")
    case True
    with 1 have "pop_while_computed exact_cross (butlast chain) p = pop_while (butlast chain) p"
      by simp
    moreover from True have "pop_while chain p = pop_while (butlast chain) p"
      by (subst pop_while.simps) simp
    moreover from True have
      "pop_while_computed exact_cross chain p = pop_while_computed exact_cross (butlast chain) p"
      by (subst pop_while_computed.simps) (simp add: exact_cross_def)
    ultimately show ?thesis by simp
  next
    case False
    then have "pop_while chain p = chain"
      by (subst pop_while.simps) auto
    moreover from False have "pop_while_computed exact_cross chain p = chain"
      by (subst pop_while_computed.simps) (auto simp: exact_cross_def)
    ultimately show ?thesis by simp
  qed
qed

lemma build_chain_computed_exact: "build_chain_computed exact_cross ps = build_chain ps"
proof -
  have "chain_step_computed exact_cross = chain_step"
    by (intro ext) (simp add: chain_step_computed_def chain_step_def pop_while_computed_exact)
  then show ?thesis by (simp add: build_chain_computed_def build_chain_def)
qed

lemma getConvexHull_computed_exact: "getConvexHull_computed exact_cross points = getConvexHull points"
  by (simp add: getConvexHull_computed_def getConvexHull_def build_chain_computed_exact)

text \<open>
  Claim C4. For a non-empty list of points the boundary is non-empty, and each of its
  elements is the (latitude, longitude) pair of one of the input points.
\<close>

theorem getConvexHull_members:
  assumes "points \<noteq> []"
  shows "getConvexHull points \<noteq> [] \<and>
         (\<forall>t \<in> set (getConvexHull points).
            \<exists>p \<in> set points. t = (latitude p, longitude p))"
proof (cases "length points < 3")
  case True
  with assms show ?thesis
    by (auto simp: getConvexHull_def toTuple_def)
next
  case False
  let ?s = "sorted_points points"
  let ?lower = "build_chain ?s"
  let ?upper = "build_chain (rev ?s)"
  from False have hull: "getConvexHull points = map toTuple (butlast ?lower @ butlast ?upper)"
    by (simp add: getConvexHull_def Let_def)
  from False have "2 \<le> length ?s" by (simp add: length_sorted_points)
  then have "2 \<le> length ?lower" by (rule build_chain_two)
  then have "butlast ?lower \<noteq> []"
    by (cases ?lower rule: rev_cases) auto
  with hull have nonempty: "getConvexHull points \<noteq> []" by simp
  have "set (butlast ?lower) \<subseteq> set points"
    using build_chain_subset [of ?s] in_set_butlastD [of _ ?lower]
    by (auto simp: set_sorted_points)
  moreover have "set (butlast ?upper) \<subseteq> set points"
    using build_chain_subset [of "rev ?s"] in_set_butlastD [of _ ?upper]
    by (auto simp: set_sorted_points)
  ultimately have "set (butlast ?lower @ butlast ?upper) \<subseteq> set points" by simp
  with hull have "\<forall>t \<in> set (getConvexHull points).
      \<exists>p \<in> set points. t = (latitude p, longitude p)"
    by (auto simp: toTuple_def)
  with nonempty show ?thesis by simp
qed

theorem getConvexHull_members_witness:
  "[\<lparr>latitude = 0, longitude = 0\<rparr>, \<lparr>latitude = 1, longitude = 0\<rparr>,
    \<lparr>latitude = 0, longitude = 1\<rparr>, \<lparr>latitude = 1, longitude = 1\<rparr>] \<noteq> [] \<and>
   getConvexHull [\<lparr>latitude = 0, longitude = 0\<rparr>, \<lparr>latitude = 1, longitude = 0\<rparr>,
                  \<lparr>latitude = 0, longitude = 1\<rparr>, \<lparr>latitude = 1, longitude = 1\<rparr>] \<noteq> [] \<and>
   set (getConvexHull [\<lparr>latitude = 0, longitude = 0\<rparr>, \<lparr>latitude = 1, longitude = 0\<rparr>,
                       \<lparr>latitude = 0, longitude = 1\<rparr>, \<lparr>latitude = 1, longitude = 1\<rparr>])
     \<subseteq> {(0, 0), (1, 0), (0, 1), (1, 1)}"
  using getConvexHull_members [of "[\<lparr>latitude = 0, longitude = 0\<rparr>, \<lparr>latitude = 1, longitude = 0\<rparr>,
                  \<lparr>latitude = 0, longitude = 1\<rparr>, \<lparr>latitude = 1, longitude = 1\<rparr>]"]
  by auto

subsection \<open>Convex hull: collinear points\<close>

text \<open>
  Claim C2, as amended. For three or more points among which every cross product that
  the program computes is 0 (as it is for collinear points whenever the binary64
  evaluation of the cross product is exact), \<open>getConvexHull\<close> returns, without
  failing, exactly two boundary points: the first and the last of the input points in
  the order by longitude, then latitude, that is, the two ends of the segment. The
  input points between them are not part of the boundary. Nothing is said of collinear
  points whose computed cross product is not 0.
\<close>

theorem getConvexHull_computed_collinear:
  assumes "3 \<le> length points" and "computed_collinear crossf points"
  shows "getConvexHull_computed crossf points =
           [toTuple (hd (sorted_points points)), toTuple (last (sorted_points points))] \<and>
         hd (sorted_points points) \<in> set points \<and>
         last (sorted_points points) \<in> set points \<and>
         (\<forall>p \<in> set points.
            before (hd (sorted_points points)) p \<and> before p (last (sorted_points points)))"
proof -
  let ?s = "sorted_points points"
  from assms(1) have len: "2 \<le> length ?s" by (simp add: length_sorted_points)
  then have ne: "?s \<noteq> []" by auto
  from assms(2) have col: "computed_collinear crossf ?s" "computed_collinear crossf (rev ?s)"
    by (simp_all add: computed_collinear_iff set_sorted_points)
  from col(1) len have lower: "build_chain_computed crossf ?s = [hd ?s, last ?s]"
    by (rule build_chain_computed_collinear)
  from len have "2 \<le> length (rev ?s)" by simp
  with col(2) have "build_chain_computed crossf (rev ?s) = [hd (rev ?s), last (rev ?s)]"
    by (rule build_chain_computed_collinear)
  with ne have upper: "build_chain_computed crossf (rev ?s) = [last ?s, hd ?s]"
    by (simp add: hd_rev last_rev)
  from assms(1) lower upper have hull:
    "getConvexHull_computed crossf points = [toTuple (hd ?s), toTuple (last ?s)]"
    by (simp add: getConvexHull_computed_def Let_def)
  from ne have ends: "hd ?s \<in> set points" "last ?s \<in> set points"
    using hd_in_set [of ?s] last_in_set [of ?s] by (simp_all add: set_sorted_points)
  have "before (hd ?s) p \<and> before p (last ?s)" if "p \<in> set points" for p
  proof -
    from that have "p \<in> set ?s" by (simp add: set_sorted_points)
    with sorted_sorted_points [of points] show ?thesis
      by (rule sorted_before_ends)
  qed
  with hull ends show ?thesis by simp
qed

text \<open>
  Four hospitals on one meridian, at whole degrees: every difference and product of
  the cross product is a small integer, so the computed value is the exact one.
\<close>

theorem getConvexHull_computed_collinear_witness:
  "3 \<le> length [\<lparr>latitude = 44, longitude = -79\<rparr>, \<lparr>latitude = 46, longitude = -79\<rparr>,
                \<lparr>latitude = 43, longitude = -79\<rparr>, \<lparr>latitude = 45, longitude = -79\<rparr>] \<and>
   computed_collinear exact_cross
     [\<lparr>latitude = 44, longitude = -79\<rparr>, \<lparr>latitude = 46, longitude = -79\<rparr>,
      \<lparr>latitude = 43, longitude = -79\<rparr>, \<lparr>latitude = 45, longitude = -79\<rparr>] \<and>
   getConvexHull_computed exact_cross
     [\<lparr>latitude = 44, longitude = -79\<rparr>, \<lparr>latitude = 46, longitude = -79\<rparr>,
      \<lparr>latitude = 43, longitude = -79\<rparr>, \<lparr>latitude = 45, longitude = -79\<rparr>]
     = [(43, -79), (46, -79)]"
proof -
  let ?ps = "[\<lparr>latitude = 44, longitude = -79\<rparr>, \<lparr>latitude = 46, longitude = -79\<rparr>,
              \<lparr>latitude = 43, longitude = -79\<rparr>, \<lparr>latitude = 45, longitude = -79\<rparr>]"
  have len: "3 \<le> length ?ps" by simp
  have col: "computed_collinear exact_cross ?ps"
    by (simp add: computed_collinear_def exact_cross_def cross_def)
  have s: "sorted_points ?ps =
      [\<lparr>latitude = 43, longitude = -79\<rparr>, \<lparr>latitude = 44, longitude = -79\<rparr>,
       \<lparr>latitude = 45, longitude = -79\<rparr>, \<lparr>latitude = 46, longitude = -79\<rparr>]"
    by (simp add: sorted_points_def sort_by_def compare_points_def)
  from getConvexHull_computed_collinear [OF len col] len col s show ?thesis
    by (simp add: toTuple_def before_def)
qed

text \<open>
  The condition is on the computed value: three sorted points whose computed cross
  product is not \<open>\<le> 0\<close> (a positive rounding error on collinear points, or NaN) keep
  the middle point on the lower chain.
\<close>

lemma getConvexHull_computed_keeps_middle:
  assumes "sorted_points [a, b, c] = [a, b, c]" and "\<not> le_zero (crossf a b c)"
  shows "toTuple b \<in> set (getConvexHull_computed crossf [a, b, c])"
proof -
  have two: "build_chain_computed crossf [a, b] = [a, b]"
    using build_chain_computed_snoc [of crossf "[a]" b]
    by (simp add: build_chain_computed_single pop_while_computed_short)
  have "pop_while_computed crossf [a, b] c = [a, b]"
    using assms(2) by (subst pop_while_computed.simps) simp
  with two have "build_chain_computed crossf [a, b, c] = [a, b, c]"
    using build_chain_computed_snoc [of crossf "[a, b]" c] by simp
  with assms(1) show ?thesis
    by (simp add: getConvexHull_computed_def Let_def)
qed

text \<open>
  Claim C2 as stated fails: of three points on a diagonal the middle one is not
  returned, so the boundary is not the list (nor the set) of the input points.
\<close>

theorem getConvexHull_collinear_counterexample:
  "collinear_points [\<lparr>latitude = 0, longitude = 0\<rparr>, \<lparr>latitude = 1, longitude = 1\<rparr>,
                     \<lparr>latitude = 2, longitude = 2\<rparr>] \<and>
   getConvexHull [\<lparr>latitude = 0, longitude = 0\<rparr>, \<lparr>latitude = 1, longitude = 1\<rparr>,
                  \<lparr>latitude = 2, longitude = 2\<rparr>] = [(0, 0), (2, 2)] \<and>
   (1, 1) \<notin> set (getConvexHull [\<lparr>latitude = 0, longitude = 0\<rparr>, \<lparr>latitude = 1, longitude = 1\<rparr>,
                                \<lparr>latitude = 2, longitude = 2\<rparr>])"
proof -
  have "getConvexHull [\<lparr>latitude = 0, longitude = 0\<rparr>, \<lparr>latitude = 1, longitude = 1\<rparr>,
                       \<lparr>latitude = 2, longitude = 2\<rparr>] = [(0, 0), (2, 2)]"
    by (simp add: getConvexHull_def sorted_points_def sort_by_def compare_points_def
        build_chain_def chain_step_def pop_while.simps cross_def toTuple_def)
  then show ?thesis
    by (simp add: collinear_points_def cross_def)
qed

subsection \<open>Convex hull: order of the input\<close>

text \<open>
  Claim C9, as amended. On lists of at least three points \<open>getConvexHull\<close> is
  permutation-invariant: a list and any permutation of it give the same list of
  boundary pairs.
\<close>

theorem getConvexHull_permutation:
  assumes "mset points = mset points'" and "3 \<le> length points"
  shows "getConvexHull points = getConvexHull points'"
proof -
  from assms(1) have "length points = length points'" by (metis size_mset)
  moreover from assms(1) have "sorted_points points = sorted_points points'"
    by (rule sorted_points_perm)
  ultimately show ?thesis using assms(2) by (simp add: getConvexHull_def)
qed

theorem getConvexHull_permutation_witness:
  "mset [\<lparr>latitude = 0, longitude = 0\<rparr>, \<lparr>latitude = 1, longitude = 0\<rparr>,
         \<lparr>latitude = 0, longitude = 1\<rparr>]
     = mset [\<lparr>latitude = 0, longitude = 1\<rparr>, \<lparr>latitude = 0, longitude = 0\<rparr>,
             \<lparr>latitude = 1, longitude = 0\<rparr>] \<and>
   3 \<le> length [\<lparr>latitude = 0, longitude = 0\<rparr>, \<lparr>latitude = 1, longitude = 0\<rparr>,
                \<lparr>latitude = 0, longitude = 1\<rparr>] \<and>
   getConvexHull [\<lparr>latitude = 0, longitude = 0\<rparr>, \<lparr>latitude = 1, longitude = 0\<rparr>,
                  \<lparr>latitude = 0, longitude = 1\<rparr>]
     = getConvexHull [\<lparr>latitude = 0, longitude = 1\<rparr>, \<lparr>latitude = 0, longitude = 0\<rparr>,
                      \<lparr>latitude = 1, longitude = 0\<rparr>]"
proof -
  have m: "mset [\<lparr>latitude = 0, longitude = 0\<rparr>, \<lparr>latitude = 1, longitude = 0\<rparr>,
                 \<lparr>latitude = 0, longitude = 1\<rparr>]
     = mset [\<lparr>latitude = 0, longitude = 1\<rparr>, \<lparr>latitude = 0, longitude = 0\<rparr>,
             \<lparr>latitude = 1, longitude = 0\<rparr>]"
    by simp
  have len: "3 \<le> length [\<lparr>latitude = 0, longitude = 0\<rparr>, \<lparr>latitude = 1, longitude = 0\<rparr>,
                          \<lparr>latitude = 0, longitude = 1\<rparr>]"
    by simp
  from getConvexHull_permutation [OF m len] m len show ?thesis
    by blast
qed

text \<open>
  Claim C9 as stated fails below three points, where the input is returned in its own
  order: two points and their swap give different lists.
\<close>

theorem getConvexHull_permutation_counterexample:
  "mset [\<lparr>latitude = 0, longitude = 0\<rparr>, \<lparr>latitude = 1, longitude = 1\<rparr>]
     = mset [\<lparr>latitude = 1, longitude = 1\<rparr>, \<lparr>latitude = 0, longitude = 0\<rparr>] \<and>
   getConvexHull [\<lparr>latitude = 0, longitude = 0\<rparr>, \<lparr>latitude = 1, longitude = 1\<rparr>]
     \<noteq> getConvexHull [\<lparr>latitude = 1, longitude = 1\<rparr>, \<lparr>latitude = 0, longitude = 0\<rparr>]"
  by (simp add: getConvexHull_def toTuple_def)

subsection \<open>Intervention simulator\<close>

lemma beta_eff_unit:
  assumes "0 \<le> b0" "b0 \<le> 1" "0 \<le> m" "m \<le> 1" "0 \<le> l" "l \<le> 1"
  shows "0 \<le> beta_eff b0 m l \<and> beta_eff b0 m l \<le> 1"
proof -
  have m: "0 \<le> 1 - 0.5 * m" "1 - 0.5 * m \<le> 1" using assms by simp_all
  have l: "0 \<le> 1 - 0.8 * l" "1 - 0.8 * l \<le> 1" using assms by simp_all
  have "0 \<le> b0 * (1 - 0.5 * m)" using assms(1) m(1) by (rule mult_nonneg_nonneg)
  moreover have "b0 * (1 - 0.5 * m) \<le> 1 * 1"
    by (rule mult_mono [OF assms(2) m(2)]) (use assms in simp_all)
  ultimately have bm: "0 \<le> b0 * (1 - 0.5 * m)" "b0 * (1 - 0.5 * m) \<le> 1" by simp_all
  have "0 \<le> b0 * (1 - 0.5 * m) * (1 - 0.8 * l)" using bm(1) l(1) by (rule mult_nonneg_nonneg)
  moreover have "b0 * (1 - 0.5 * m) * (1 - 0.8 * l) \<le> 1 * 1"
    by (rule mult_mono [OF bm(2) l(2)]) (use assms in simp_all)
  ultimately show ?thesis by (simp add: beta_eff_def)
qed

lemma sir_step_ok:
  assumes b: "0 \<le> b" "b \<le> 1" and g: "0 \<le> g" "g \<le> 1" and N: "0 < N"
    and ok: "compartments_ok N p"
  shows "compartments_ok N (sir_step b g N p)"
proof -
  let ?S = "susceptible p" and ?I = "infected p" and ?R = "recovered p"
  from ok have S: "0 \<le> ?S" and I: "0 \<le> ?I" "?I \<le> N" and R: "0 \<le> ?R"
    and sum: "?S + ?I + ?R = N"
    by (simp_all add: compartments_ok_def)
  let ?x = "b * ?S * ?I / N"
  have "b * ?I \<le> 1 * N" using b I by (intro mult_mono) simp_all
  then have "?S * (b * ?I) \<le> ?S * N" using S by (simp add: mult_left_mono)
  then have "b * ?S * ?I \<le> ?S * N" by (simp add: mult.commute mult.left_commute)
  then have x_le: "?x \<le> ?S" using N by (simp add: pos_divide_le_eq)
  have x_ge: "0 \<le> ?x" using b S I N by simp
  have gI: "g * ?I \<le> ?I" using g I by (simp add: mult_left_le_one_le)
  have gI0: "0 \<le> g * ?I" using g I by simp
  have S': "0 \<le> ?S - ?x" using x_le by simp
  have I': "0 \<le> ?I + ?x - g * ?I" using x_ge gI by simp
  have R': "0 \<le> ?R + g * ?I" using R gI0 by simp
  have sum': "(?S - ?x) + (?I + ?x - g * ?I) + (?R + g * ?I) = N" using sum by simp
  from S' I' R' sum' show ?thesis
    by (simp add: compartments_ok_def sir_step_def)
qed

lemma sir_curve_ok:
  assumes "0 \<le> b" "b \<le> 1" "0 \<le> g" "g \<le> 1" "0 < N"
  shows "compartments_ok N p \<Longrightarrow> \<forall>q \<in> set (sir_curve b g N n p). compartments_ok N q"
proof (induction n arbitrary: p)
  case 0
  then show ?case by simp
next
  case (Suc n)
  from assms Suc.prems have "compartments_ok N (sir_step b g N p)" by (rule sir_step_ok)
  then have "\<forall>q \<in> set (sir_curve b g N n (sir_step b g N p)). compartments_ok N q"
    by (rule Suc.IH)
  with Suc.prems show ?case by simp
qed

lemma initial_state_ok: "config_ok cfg \<Longrightarrow> compartments_ok (population cfg) (initial_state cfg)"
  by (simp add: config_ok_def compartments_ok_def initial_state_def)

lemma length_sir_curve: "length (sir_curve b g N n p) = n"
  by (induction n arbitrary: p) simp_all

text \<open>
  Claim C8. At every step of the baseline and of the intervention-adjusted curve,
  each compartment lies between 0 and the population \<open>N\<close>, and the three sum to
  \<open>N\<close>. The simulator is the one modelled from the specification, in exact
  arithmetic; its constants are parameters, with rates between 0 and 1 per step and
  an initial infected count between 0 and \<open>N\<close>.
\<close>

theorem simulate_compartments:
  assumes "config_ok cfg" and "0 \<le> m" "m \<le> 1" and "0 \<le> l" "l \<le> 1"
  shows "\<forall>p \<in> set (baseline (simulate cfg m l horizon_days)) \<union>
                set (projected (simulate cfg m l horizon_days)).
           compartments_ok (population cfg) p"
proof -
  from assms(1) have cfg: "0 \<le> beta0 cfg" "beta0 cfg \<le> 1" "0 \<le> gamma cfg" "gamma cfg \<le> 1"
      "0 < population cfg"
    by (simp_all add: config_ok_def)
  from assms(1) have init: "compartments_ok (population cfg) (initial_state cfg)"
    by (rule initial_state_ok)
  have base: "0 \<le> beta_eff (beta0 cfg) 0 0 \<and> beta_eff (beta0 cfg) 0 0 \<le> 1"
    using cfg(1,2) by (intro beta_eff_unit) simp_all
  have proj: "0 \<le> beta_eff (beta0 cfg) m l \<and> beta_eff (beta0 cfg) m l \<le> 1"
    using cfg(1,2) assms(2-5) by (intro beta_eff_unit)
  have "\<forall>q \<in> set (sir_curve (beta_eff (beta0 cfg) 0 0) (gamma cfg) (population cfg)
            horizon_days (initial_state cfg)). compartments_ok (population cfg) q"
    using base cfg(3-5) init by (intro sir_curve_ok) simp_all
  moreover
  have "\<forall>q \<in> set (sir_curve (beta_eff (beta0 cfg) m l) (gamma cfg) (population cfg)
            horizon_days (initial_state cfg)). compartments_ok (population cfg) q"
    using proj cfg(3-5) init by (intro sir_curve_ok) simp_all
  ultimately show ?thesis by (auto simp: simulate_def)
qed

text \<open>Three days at transmission rate 0.3 and recovery rate 0.1.\<close>

theorem simulate_compartments_witness:
  "config_ok \<lparr>beta0 = 3 / 10, gamma = 1 / 10, population = 1000, initial_infected = 10\<rparr> \<and>
   (0::real) \<le> 1 / 2 \<and> (1::real) / 2 \<le> 1 \<and> (0::real) \<le> 1 / 4 \<and> (1::real) / 4 \<le> 1 \<and>
   list_all (compartments_ok 1000)
     (baseline (simulate
        \<lparr>beta0 = 3 / 10, gamma = 1 / 10, population = 1000, initial_infected = 10\<rparr>
        (1 / 2) (1 / 4) 3)) \<and>
   list_all (compartments_ok 1000)
     (projected (simulate
        \<lparr>beta0 = 3 / 10, gamma = 1 / 10, population = 1000, initial_infected = 10\<rparr>
        (1 / 2) (1 / 4) 3))"
proof -
  have cfg: "config_ok \<lparr>beta0 = 3 / 10, gamma = 1 / 10, population = 1000, initial_infected = 10\<rparr>"
    by (simp add: config_ok_def)
  from simulate_compartments [OF cfg, of "1 / 2" "1 / 4" 3] cfg show ?thesis
    by (simp add: list_all_iff)
qed

text \<open>
  The bound on the rates is needed: with a transmission rate of 3 and half of the
  population infected, the update of the specification takes the susceptible
  compartment below zero after one step.
\<close>

lemma simulate_rate_above_one:
  "map susceptible (baseline (simulate
      \<lparr>beta0 = 3, gamma = 1 / 10, population = 1000, initial_infected = 500\<rparr> 0 0 2))
     = [500, -250]"
  by (simp add: simulate_def initial_state_def sir_step_def beta_eff_def numeral_2_eq_2)

end
